theory Spec2Isabelle
  imports Complex_Main "HOL-Library.AList" "HOL-Library.Sublist"
begin

section \<open>Exchange adapters of \<open>exchange.py\<close>\<close>

text \<open>
  The module defines three adapters (\<open>narkasa\<close>, \<open>biconomy\<close>, \<open>toobit\<close>) over a common
  base class. Each turns the JSON answers of an exchange into a dictionary from trading-pair
  symbols to \<open>TickerInfo\<close> records. The embedding below keeps the Python evaluation order:
  every exception of the source is an \<open>Inl\<close> result, every attribute that a method mutates
  is part of an explicit state that the method returns.
\<close>

subsection \<open>Python values\<close>

text \<open>
  A Python \<open>float\<close> is represented by the real number it stands for, or by one of the
  three special values. Rounding to the nearest double is not represented: \<open>Finite r\<close>
  stands for the double nearest to \<open>r\<close> (and the sign of a zero is not kept). A character
  is a code point below 256.
\<close>

datatype pyfloat = Finite real | PosInf | NegInf | NaN

text \<open>What \<open>json.loads\<close> produces: \<open>None\<close>, \<open>bool\<close>, \<open>int\<close>, \<open>float\<close>, \<open>str\<close>,
  \<open>list\<close> and \<open>dict\<close> (keys are strings, in insertion order).\<close>

datatype json =
    JNull
  | JBool bool
  | JInt int
  | JFloat pyfloat
  | JStr string
  | JArr "json list"
  | JObj "(string \<times> json) list"

text \<open>The exceptions the module can raise. \<open>ClientError\<close> is raised by the HTTP client when
  no response arrives, \<open>Exception_resp\<close> is the \<open>raise Exception(resp)\<close> of \<open>fetch_data\<close>
  (with the status of the response), \<open>JSONDecodeError\<close> is raised by \<open>resp.json()\<close>; the
  others are the built-in exceptions of the interpreter.\<close>

datatype error =
    ClientError
  | Exception_resp int
  | JSONDecodeError
  | KeyError
  | IndexError
  | TypeError
  | ValueError
  | AttributeError
  | OverflowError

text \<open>A number stored in a \<open>TickerInfo\<close>: the dataclass does not convert its arguments,
  so a field holds whatever was passed, an \<open>int\<close> or a \<open>float\<close>. The field \<open>last\<close> of the
  source is \<open>last_price\<close> here, since \<open>last\<close> names a function on lists.\<close>

datatype pynum = PyInt int | PyFloat pyfloat

record TickerInfo =
  last_price :: pynum
  baseVolume :: pynum
  quoteVolume :: pynum

type_synonym tickers = "(string \<times> TickerInfo) list"

subsection \<open>Built-in operations used by the module\<close>

text \<open>Truth value of an object, as tested by \<open>if base and quote\<close>.\<close>

fun truthy :: "json \<Rightarrow> bool" where
  "truthy JNull = False"
| "truthy (JBool b) = b"
| "truthy (JInt i) = (i \<noteq> 0)"
| "truthy (JFloat f) = (f \<noteq> Finite 0)"
| "truthy (JStr s) = (s \<noteq> [])"
| "truthy (JArr xs) = (xs \<noteq> [])"
| "truthy (JObj kvs) = (kvs \<noteq> [])"

text \<open>Lists and dictionaries cannot be dictionary keys.\<close>

fun hashable :: "json \<Rightarrow> bool" where
  "hashable (JArr xs) = False"
| "hashable (JObj kvs) = False"
| "hashable v = True"

text \<open>\<open>x.get(k, d)\<close>: only a dictionary has the method.\<close>

fun py_get :: "json \<Rightarrow> string \<Rightarrow> json \<Rightarrow> error + json" where
  "py_get (JObj kvs) k d = Inr (case map_of kvs k of Some v \<Rightarrow> v | None \<Rightarrow> d)"
| "py_get v k d = Inl AttributeError"

text \<open>\<open>x[k]\<close> with a string \<open>k\<close>: a missing key of a dictionary is a \<open>KeyError\<close>, every other
  object rejects a string subscript with a \<open>TypeError\<close>.\<close>

fun py_getitem :: "json \<Rightarrow> string \<Rightarrow> error + json" where
  "py_getitem (JObj kvs) k = (case map_of kvs k of Some v \<Rightarrow> Inr v | None \<Rightarrow> Inl KeyError)"
| "py_getitem v k = Inl TypeError"

text \<open>\<open>x[0]\<close>: the first element of a list or the first character of a string
  (\<open>IndexError\<close> when empty); a dictionary has string keys only, so \<open>0\<close> is a missing key.\<close>

fun py_getitem0 :: "json \<Rightarrow> error + json" where
  "py_getitem0 (JArr []) = Inl IndexError"
| "py_getitem0 (JArr (x # xs)) = Inr x"
| "py_getitem0 (JStr []) = Inl IndexError"
| "py_getitem0 (JStr (c # cs)) = Inr (JStr [c])"
| "py_getitem0 (JObj kvs) = Inl KeyError"
| "py_getitem0 v = Inl TypeError"

text \<open>The elements a \<open>for\<close> loop visits: the items of a list, the keys of a dictionary,
  the characters of a string; anything else is not iterable.\<close>

fun py_iter :: "json \<Rightarrow> error + json list" where
  "py_iter (JArr xs) = Inr xs"
| "py_iter (JObj kvs) = Inr (map (\<lambda>kv. JStr (fst kv)) kvs)"
| "py_iter (JStr s) = Inr (map (\<lambda>c. JStr [c]) s)"
| "py_iter v = Inl TypeError"

text \<open>\<open>d.update(e)\<close>: the items of \<open>e\<close> are stored in \<open>d\<close> one after the other.\<close>

definition dict_update :: "('k \<times> 'v) list \<Rightarrow> ('k \<times> 'v) list \<Rightarrow> ('k \<times> 'v) list" where
  "dict_update d e = foldl (\<lambda>acc kv. AList.update (fst kv) (snd kv) acc) d e"

text \<open>\<open>s.replace(old, new)\<close>: all occurrences, found from left to right without overlap.\<close>

function replace :: "string \<Rightarrow> string \<Rightarrow> string \<Rightarrow> string" where
  "replace old new s =
     (if old = [] then new @ concat (map (\<lambda>c. c # new) s)
      else if s = [] then []
      else if prefix old s then new @ replace old new (drop (length old) s)
      else hd s # replace old new (tl s))"
  by pat_completeness auto
termination
  by (relation "measure (\<lambda>(old, new, s). length s)") auto

declare replace.simps [simp del]

subsection \<open>The conversion \<open>float(x)\<close>\<close>

definition is_digit :: "char \<Rightarrow> bool" where
  "is_digit c = (c \<in> set ''0123456789'')"

definition nat_of_digits :: "string \<Rightarrow> nat" where
  "nat_of_digits ds = foldl (\<lambda>a c. 10 * a + (of_char c - 48)) 0 ds"

text \<open>White space that \<open>float\<close> removes at both ends of a string.\<close>

definition py_isspace :: "char \<Rightarrow> bool" where
  "py_isspace c = (of_char c \<in> set [9, 10, 11, 12, 13, 32, 133, 160 :: nat])"

definition strip :: "string \<Rightarrow> string" where
  "strip s = rev (dropWhile py_isspace (rev (dropWhile py_isspace s)))"

text \<open>An underscore is accepted only between two digits.\<close>

fun underscores_ok :: "char \<Rightarrow> string \<Rightarrow> bool" where
  "underscores_ok prev [] = (prev \<noteq> CHR ''_'')"
| "underscores_ok prev (c # cs) =
     ((if c = CHR ''_'' then is_digit prev else if prev = CHR ''_'' then is_digit c else True)
      \<and> underscores_ok c cs)"

definition split_sign :: "string \<Rightarrow> bool \<times> string" where
  "split_sign s =
     (case s of
        [] \<Rightarrow> (False, [])
      | c # r \<Rightarrow> if c = CHR ''-'' then (True, r) else if c = CHR ''+'' then (False, r)
                 else (False, s))"

text \<open>The exponent part: empty, or \<open>e\<close>/\<open>E\<close>, an optional sign and at least one digit.\<close>

definition parse_exponent :: "string \<Rightarrow> int option" where
  "parse_exponent s =
     (case s of
        [] \<Rightarrow> Some 0
      | c # r \<Rightarrow>
          if c = CHR ''e'' \<or> c = CHR ''E'' then
            (let (neg, ds) = split_sign r in
             if ds \<noteq> [] \<and> list_all is_digit ds
             then Some (if neg then - int (nat_of_digits ds) else int (nat_of_digits ds))
             else None)
          else None)"

text \<open>An unsigned decimal numeral: digits, an optional point and digits (at least one
  digit in all), an optional exponent, and nothing after it.\<close>

definition parse_number :: "string \<Rightarrow> real option" where
  "parse_number s =
     (let ip = takeWhile is_digit s;
          r1 = dropWhile is_digit s;
          fp = (case r1 of [] \<Rightarrow> [] | c # r \<Rightarrow> if c = CHR ''.'' then takeWhile is_digit r else []);
          r2 = (case r1 of [] \<Rightarrow> [] | c # r \<Rightarrow> if c = CHR ''.'' then dropWhile is_digit r else r1)
      in if ip = [] \<and> fp = [] then None
         else (case parse_exponent r2 of
                 None \<Rightarrow> None
               | Some e \<Rightarrow>
                   (let m = real (nat_of_digits (ip @ fp)); k = e - int (length fp)
                    in Some (if 0 \<le> k then m * 10 ^ nat k else m / 10 ^ nat (- k)))))"

definition ascii_lower :: "char \<Rightarrow> char" where
  "ascii_lower c =
     (if 65 \<le> (of_char c :: nat) \<and> (of_char c :: nat) \<le> 90 then char_of (of_char c + 32 :: nat) else c)"

text \<open>A value at or beyond this bound rounds to a double that does not exist: a string
  gives an infinity, an \<open>int\<close> raises \<open>OverflowError\<close>.\<close>

definition float_overflow :: "real" where
  "float_overflow = 2 ^ 1024 - 2 ^ 970"

definition float_of_real :: "real \<Rightarrow> pyfloat" where
  "float_of_real r =
     (if float_overflow \<le> r then PosInf else if r \<le> - float_overflow then NegInf else Finite r)"

definition float_of_str :: "string \<Rightarrow> pyfloat option" where
  "float_of_str s0 =
     (if \<not> underscores_ok (CHR 0x00) s0 then None
      else
        (let (neg, body) = split_sign (strip (filter (\<lambda>c. c \<noteq> CHR ''_'') s0)) in
         case parse_number body of
           Some v \<Rightarrow> Some (float_of_real (if neg then - v else v))
         | None \<Rightarrow>
             if map ascii_lower body = ''inf'' \<or> map ascii_lower body = ''infinity''
             then Some (if neg then NegInf else PosInf)
             else if map ascii_lower body = ''nan'' then Some NaN
             else None))"

fun py_float :: "json \<Rightarrow> error + pyfloat" where
  "py_float JNull = Inl TypeError"
| "py_float (JBool b) = Inr (Finite (if b then 1 else 0))"
| "py_float (JInt i) =
     (if float_overflow \<le> \<bar>real_of_int i\<bar> then Inl OverflowError else Inr (Finite (real_of_int i)))"
| "py_float (JFloat f) = Inr f"
| "py_float (JStr s) = (case float_of_str s of Some f \<Rightarrow> Inr f | None \<Rightarrow> Inl ValueError)"
| "py_float (JArr xs) = Inl TypeError"
| "py_float (JObj kvs) = Inl TypeError"

subsection \<open>\<open>BaseExchange.fetch_data\<close>\<close>

text \<open>
  What the HTTP client delivers for a URL: no response at all (the client raises), or a
  response with a status and a body; the body is \<open>None\<close> when \<open>resp.json()\<close> cannot
  decode it. The remote side is a function of the URL: it answers the same request in the
  same way during one run.
\<close>

datatype http_result = NoResponse | Response int "json option"

type_synonym remote = "string \<Rightarrow> http_result"

definition fetch_data :: "remote \<Rightarrow> string \<Rightarrow> error + json" where
  "fetch_data net url =
     (case net url of
        NoResponse \<Rightarrow> Inl ClientError
      | Response status body \<Rightarrow>
          if status = 200 then (case body of Some data \<Rightarrow> Inr data | None \<Rightarrow> Inl JSONDecodeError)
          else Inl (Exception_resp status))"

subsection \<open>Class \<open>narkasa\<close>\<close>

text \<open>The attributes that \<open>load_markets\<close> assigns: \<open>markets\<close> maps a market
  (\<open>BASE/QUOTE\<close>) to the symbol of the exchange, \<open>symbols\<close> maps the symbol back to the
  market. The keys of \<open>symbols\<close> are compared as values of \<^typ>\<open>json\<close>: a string key is
  equal to the same string only, as in Python, and the source only ever looks up strings
  there (Python also identifies numeric keys of equal value, such as \<open>1\<close> and \<open>1.0\<close>, which
  no string lookup can observe). The other attributes are constants.\<close>

record narkasa =
  markets :: "(string \<times> json) list"
  symbols :: "(json \<times> string) list"

definition narkasa_init :: "narkasa" where
  "narkasa_init = \<lparr>markets = [], symbols = []\<rparr>"

definition narkasa_base_url :: "string" where
  "narkasa_base_url = ''https://api.narkasa.com/''"

definition code_ok :: "string" where
  "code_ok = ''00000''"

definition narkasa_markets_url :: "string" where
  "narkasa_markets_url = narkasa_base_url @ ''v3/api/market/markets''"

definition narkasa_convert_symbol_to_ccxt :: "narkasa \<Rightarrow> json \<Rightarrow> error + string" where
  "narkasa_convert_symbol_to_ccxt self native =
     (case native of
        JStr s \<Rightarrow> (case map_of (symbols self) (JStr s) of Some market \<Rightarrow> Inr market
                                                          | None \<Rightarrow> Inl ValueError)
      | _ \<Rightarrow> Inl TypeError)"

text \<open>\<open>float(ticker.get(k, 0))\<close>\<close>

definition get_float :: "json \<Rightarrow> string \<Rightarrow> error + pyfloat" where
  "get_float ticker k = (case py_get ticker k (JInt 0) of Inl e \<Rightarrow> Inl e | Inr v \<Rightarrow> py_float v)"

definition narkasa_normalize_data :: "narkasa \<Rightarrow> json \<Rightarrow> error + tickers" where
  "narkasa_normalize_data self data =
     (case py_get data ''market'' (JObj []) of Inl e \<Rightarrow> Inl e | Inr ticker \<Rightarrow>
      (case py_get ticker ''symbol'' (JStr []) of Inl e \<Rightarrow> Inl e | Inr native \<Rightarrow>
      (case narkasa_convert_symbol_to_ccxt self native of Inl e \<Rightarrow> Inl e | Inr symbol \<Rightarrow>
      (case get_float ticker ''last'' of Inl e \<Rightarrow> Inl e | Inr l \<Rightarrow>
      (case get_float ticker ''volumeQty'' of Inl e \<Rightarrow> Inl e | Inr b \<Rightarrow>
      (case get_float ticker ''volume'' of Inl e \<Rightarrow> Inl e | Inr q \<Rightarrow>
        Inr (AList.update symbol
               \<lparr>last_price = PyFloat l, baseVolume = PyFloat b, quoteVolume = PyFloat q\<rparr> [])))))))"

text \<open>The loop of \<open>load_markets\<close> over the listed markets. An exception leaves the two
  dictionaries as they are at that moment. \<open>base + "/" + quote\<close> is defined for two strings
  only.\<close>

fun narkasa_load_loop :: "json list \<Rightarrow> narkasa \<Rightarrow> error option \<times> narkasa" where
  "narkasa_load_loop [] self = (None, self)"
| "narkasa_load_loop (symbol # rest) self =
     (case py_get symbol ''firstSymbol'' JNull of Inl e \<Rightarrow> (Some e, self) | Inr base \<Rightarrow>
      (case py_get symbol ''secondSymbol'' JNull of Inl e \<Rightarrow> (Some e, self) | Inr quote \<Rightarrow>
      (case py_get symbol ''symbol'' JNull of Inl e \<Rightarrow> (Some e, self) | Inr symbol_name \<Rightarrow>
        if truthy base \<and> truthy quote then
          (case (base, quote) of
             (JStr b, JStr q) \<Rightarrow>
               (let market = b @ ''/'' @ q;
                    self1 = self\<lparr>markets := AList.update market symbol_name (markets self)\<rparr>
                in if hashable symbol_name
                   then narkasa_load_loop rest
                          (self1\<lparr>symbols := AList.update symbol_name market (symbols self1)\<rparr>)
                   else (Some TypeError, self1))
           | _ \<Rightarrow> (Some TypeError, self))
        else narkasa_load_loop rest self)))"

definition narkasa_load_markets :: "remote \<Rightarrow> narkasa \<Rightarrow> error option \<times> narkasa" where
  "narkasa_load_markets net self0 =
     (let self = self0\<lparr>markets := [], symbols := []\<rparr> in
      case fetch_data net narkasa_markets_url of
        Inl e \<Rightarrow> (Some e, self)
      | Inr data \<Rightarrow>
      (case py_get data ''code'' JNull of Inl e \<Rightarrow> (Some e, self) | Inr code \<Rightarrow>
        if code \<noteq> JStr code_ok then (None, self)
        else
          (case py_get data ''markets'' (JArr []) of Inl e \<Rightarrow> (Some e, self) | Inr syms \<Rightarrow>
           (case py_iter syms of Inl e \<Rightarrow> (Some e, self) | Inr xs \<Rightarrow>
             narkasa_load_loop xs self))))"

definition narkasa_ticker_url :: "string \<Rightarrow> string" where
  "narkasa_ticker_url symbol = narkasa_base_url @ ''v3/api/market/24h?symbol='' @ symbol"

text \<open>The loop of \<open>fetch_tickers\<close> over \<open>self.markets.values()\<close>; the string concatenation
  that builds the URL raises \<open>TypeError\<close> for a value that is not a string.\<close>

fun narkasa_fetch_loop :: "remote \<Rightarrow> narkasa \<Rightarrow> json list \<Rightarrow> tickers \<Rightarrow> error + tickers" where
  "narkasa_fetch_loop net self [] result = Inr result"
| "narkasa_fetch_loop net self (symbol # rest) result =
     (case symbol of
        JStr s \<Rightarrow>
          (case fetch_data net (narkasa_ticker_url s) of Inl e \<Rightarrow> Inl e | Inr data \<Rightarrow>
           (case py_getitem data ''code'' of Inl e \<Rightarrow> Inl e | Inr code \<Rightarrow>
             if code = JStr code_ok then
               (case narkasa_normalize_data self data of Inl e \<Rightarrow> Inl e | Inr nd \<Rightarrow>
                  narkasa_fetch_loop net self rest (dict_update result nd))
             else narkasa_fetch_loop net self rest result))
      | _ \<Rightarrow> Inl TypeError)"

definition narkasa_fetch_tickers :: "remote \<Rightarrow> narkasa \<Rightarrow> (error + tickers) \<times> narkasa" where
  "narkasa_fetch_tickers net self0 =
     (case (if markets self0 = [] then narkasa_load_markets net self0 else (None, self0)) of
        (Some e, self) \<Rightarrow> (Inl e, self)
      | (None, self) \<Rightarrow> (narkasa_fetch_loop net self (map snd (markets self)) [], self))"

subsection \<open>Class \<open>biconomy\<close>\<close>

definition biconomy_base_url :: "string" where
  "biconomy_base_url = ''https://www.biconomy.com/''"

definition biconomy_tickers_url :: "string" where
  "biconomy_tickers_url = biconomy_base_url @ ''api/v1/tickers''"

definition biconomy_convert_symbol_to_ccxt :: "json \<Rightarrow> error + string" where
  "biconomy_convert_symbol_to_ccxt native =
     (case native of JStr s \<Rightarrow> Inr (replace ''_'' ''/'' s) | _ \<Rightarrow> Inl TypeError)"

fun biconomy_normalize_loop :: "json list \<Rightarrow> tickers \<Rightarrow> error + tickers" where
  "biconomy_normalize_loop [] normalized_data = Inr normalized_data"
| "biconomy_normalize_loop (ticker # rest) normalized_data =
     (case py_get ticker ''symbol'' (JStr []) of Inl e \<Rightarrow> Inl e | Inr native \<Rightarrow>
      (case biconomy_convert_symbol_to_ccxt native of Inl e \<Rightarrow> Inl e | Inr symbol \<Rightarrow>
      (case get_float ticker ''last'' of Inl e \<Rightarrow> Inl e | Inr l \<Rightarrow>
      (case get_float ticker ''vol'' of Inl e \<Rightarrow> Inl e | Inr b \<Rightarrow>
        biconomy_normalize_loop rest
          (AList.update symbol
             \<lparr>last_price = PyFloat l, baseVolume = PyFloat b, quoteVolume = PyInt 0\<rparr>
             normalized_data)))))"

definition biconomy_normalize_data :: "json \<Rightarrow> error + tickers" where
  "biconomy_normalize_data data =
     (case py_get data ''ticker'' (JArr []) of Inl e \<Rightarrow> Inl e | Inr ts \<Rightarrow>
      (case py_iter ts of Inl e \<Rightarrow> Inl e | Inr xs \<Rightarrow> biconomy_normalize_loop xs []))"

definition biconomy_fetch_tickers :: "remote \<Rightarrow> error + tickers" where
  "biconomy_fetch_tickers net =
     (case fetch_data net biconomy_tickers_url of
        Inl e \<Rightarrow> Inl e
      | Inr data \<Rightarrow> biconomy_normalize_data data)"

subsection \<open>Class \<open>toobit\<close>\<close>

text \<open>The only attribute that changes is \<open>markets\<close>; its values are the concatenations
  \<open>base + quote\<close>, which are strings.\<close>

record toobit =
  t_markets :: "(string \<times> string) list"

definition toobit_init :: "toobit" where
  "toobit_init = \<lparr>t_markets = []\<rparr>"

definition toobit_base_url :: "string" where
  "toobit_base_url = ''https://api.toobit.com/''"

definition toobit_info_url :: "string" where
  "toobit_info_url = toobit_base_url @ ''api/v1/exchangeInfo''"

definition toobit_convert_symbol_to_ccxt :: "json \<Rightarrow> error + string" where
  "toobit_convert_symbol_to_ccxt native =
     (case native of
        JStr s \<Rightarrow> Inr (if suffix ''USDT'' s then replace ''USDT'' ''/USDT'' s else s)
      | _ \<Rightarrow> Inl TypeError)"

definition toobit_normalize_data :: "json \<Rightarrow> error + tickers" where
  "toobit_normalize_data data =
     (case py_getitem0 data of Inl e \<Rightarrow> Inl e | Inr result \<Rightarrow>
      (case py_get result ''s'' JNull of Inl e \<Rightarrow> Inl e | Inr native \<Rightarrow>
      (case toobit_convert_symbol_to_ccxt native of Inl e \<Rightarrow> Inl e | Inr symbol \<Rightarrow>
      (case get_float result ''c'' of Inl e \<Rightarrow> Inl e | Inr l \<Rightarrow>
      (case get_float result ''v'' of Inl e \<Rightarrow> Inl e | Inr b \<Rightarrow>
      (case get_float result ''qv'' of Inl e \<Rightarrow> Inl e | Inr q \<Rightarrow>
        Inr (AList.update symbol
               \<lparr>last_price = PyFloat l, baseVolume = PyFloat b, quoteVolume = PyFloat q\<rparr> [])))))))"

text \<open>The loop of \<open>load_markets\<close>. The assignment
  \<open>self.markets[base + "/" + quote] = base + quote\<close> succeeds for two strings; for any
  other pair of values one of the two additions raises \<open>TypeError\<close> before the dictionary
  is touched.\<close>

fun toobit_load_loop :: "json list \<Rightarrow> toobit \<Rightarrow> error option \<times> toobit" where
  "toobit_load_loop [] self = (None, self)"
| "toobit_load_loop (symbol # rest) self =
     (case py_getitem symbol ''baseAsset'' of Inl e \<Rightarrow> (Some e, self) | Inr base \<Rightarrow>
      (case py_getitem symbol ''quoteAsset'' of Inl e \<Rightarrow> (Some e, self) | Inr quote \<Rightarrow>
        if truthy base \<and> truthy quote then
          (case (base, quote) of
             (JStr b, JStr q) \<Rightarrow>
               toobit_load_loop rest
                 (self\<lparr>t_markets := AList.update (b @ ''/'' @ q) (b @ q) (t_markets self)\<rparr>)
           | _ \<Rightarrow> (Some TypeError, self))
        else toobit_load_loop rest self))"

definition toobit_load_markets :: "remote \<Rightarrow> toobit \<Rightarrow> error option \<times> toobit" where
  "toobit_load_markets net self =
     (case fetch_data net toobit_info_url of
        Inl e \<Rightarrow> (Some e, self)
      | Inr data \<Rightarrow>
      (case py_get data ''symbols'' (JArr []) of Inl e \<Rightarrow> (Some e, self) | Inr syms \<Rightarrow>
      (case py_iter syms of Inl e \<Rightarrow> (Some e, self) | Inr xs \<Rightarrow> toobit_load_loop xs self)))"

definition toobit_ticker_url :: "string \<Rightarrow> string" where
  "toobit_ticker_url symbol = toobit_base_url @ ''quote/v1/ticker/24hr?symbol='' @ symbol"

fun toobit_fetch_loop :: "remote \<Rightarrow> string list \<Rightarrow> tickers \<Rightarrow> error + tickers" where
  "toobit_fetch_loop net [] result = Inr result"
| "toobit_fetch_loop net (symbol # rest) result =
     (case fetch_data net (toobit_ticker_url symbol) of Inl e \<Rightarrow> Inl e | Inr data \<Rightarrow>
      (case toobit_normalize_data data of Inl e \<Rightarrow> Inl e | Inr nd \<Rightarrow>
        toobit_fetch_loop net rest (dict_update result nd)))"

definition toobit_fetch_tickers :: "remote \<Rightarrow> toobit \<Rightarrow> (error + tickers) \<times> toobit" where
  "toobit_fetch_tickers net self0 =
     (case (if t_markets self0 = [] then toobit_load_markets net self0 else (None, self0)) of
        (Some e, self) \<Rightarrow> (Inl e, self)
      | (None, self) \<Rightarrow> (toobit_fetch_loop net (map snd (t_markets self)) [], self))"

subsection \<open>The canonical symbol form\<close>

text \<open>
  The canonical form of a symbol as the specification words it: a symbol matches
  \<^verbatim>\<open>^[A-Z0-9]+/[A-Z0-9]+$\<close>, two non-empty segments of upper-case letters and digits with
  one \<open>/\<close> between them. This predicate is written from the specification, not from the
  source; the conversions above are compared against it.
\<close>

definition is_upper_alnum :: "char \<Rightarrow> bool" where
  "is_upper_alnum c = (c \<in> set ''ABCDEFGHIJKLMNOPQRSTUVWXYZ0123456789'')"

definition canonical_symbol :: "string \<Rightarrow> bool" where
  "canonical_symbol s =
     (let b = takeWhile (\<lambda>c. c \<noteq> CHR ''/'') s; r = dropWhile (\<lambda>c. c \<noteq> CHR ''/'') s
      in b \<noteq> [] \<and> list_all is_upper_alnum b \<and>
         (case r of [] \<Rightarrow> False | c # q \<Rightarrow> q \<noteq> [] \<and> list_all is_upper_alnum q))"

subsection \<open>Concrete remotes and payloads\<close>

text \<open>A remote given by a table of answers; a URL outside the table gets no response.\<close>

definition remote_of :: "(string \<times> http_result) list \<Rightarrow> remote" where
  "remote_of answers url = (case map_of answers url of Some r \<Rightarrow> r | None \<Rightarrow> NoResponse)"

text \<open>The bulk payload
  \<^verbatim>\<open>{"ticker":[{"symbol":"eth_btc","last":"4026","vol":"4567"}]}\<close>.\<close>

definition bulk_scenario :: "json" where
  "bulk_scenario =
     JObj [(''ticker'', JArr [JObj [(''symbol'', JStr ''eth_btc''), (''last'', JStr ''4026''),
                                    (''vol'', JStr ''4567'')]])]"

text \<open>A market listing that reports an application-level error:
  \<^verbatim>\<open>{"code":"10001","message":"failure"}\<close>.\<close>

definition error_code_listing :: "json" where
  "error_code_listing = JObj [(''code'', JStr ''10001''), (''message'', JStr ''failure'')]"

text \<open>A \<open>narkasa\<close> object that has discovered one market before.\<close>

definition old_registry :: "narkasa" where
  "old_registry = \<lparr>markets = [(''OLD/USDT'', JStr ''OLDUSDT'')],
                    symbols = [(JStr ''OLDUSDT'', ''OLD/USDT'')]\<rparr>"

text \<open>Two listings of \<open>toobit\<close>: \<^verbatim>\<open>{"symbols":[{"baseAsset":"BTC","quoteAsset":"USDT"}]}\<close>,
  and one whose first entry has no \<open>baseAsset\<close> field:
  \<^verbatim>\<open>{"symbols":[{"quoteAsset":"USDT"},{"baseAsset":"BTC","quoteAsset":"USDT"}]}\<close>.\<close>

definition toobit_listing :: "json" where
  "toobit_listing =
     JObj [(''symbols'', JArr [JObj [(''baseAsset'', JStr ''BTC''), (''quoteAsset'', JStr ''USDT'')]])]"

definition toobit_incomplete_listing :: "json" where
  "toobit_incomplete_listing =
     JObj [(''symbols'', JArr [JObj [(''quoteAsset'', JStr ''USDT'')],
                               JObj [(''baseAsset'', JStr ''BTC''), (''quoteAsset'', JStr ''USDT'')]])]"

text \<open>Per-symbol payloads of \<open>toobit\<close>: one whose price is \<open>null\<close>,
  \<^verbatim>\<open>[{"s":"BTCUSDT","c":null}]\<close>, the ticker
  \<^verbatim>\<open>{"s":"BTCUSDT","c":"57000","v":"11328","qv":"3456789"}\<close>, and the same ticker without its
  quote volume. Then a \<open>narkasa\<close> object that knows the market \<open>BTC/USDT\<close>, and two of its
  per-symbol payloads without the quote volume \<open>volume\<close>, the first with a \<open>null\<close> price.\<close>

definition toobit_null_price :: "json" where
  "toobit_null_price = JArr [JObj [(''s'', JStr ''BTCUSDT''), (''c'', JNull)]]"

definition toobit_scenario_ticker :: "json" where
  "toobit_scenario_ticker =
     JObj [(''s'', JStr ''BTCUSDT''), (''c'', JStr ''57000''), (''v'', JStr ''11328''),
           (''qv'', JStr ''3456789'')]"







subsection \<open>Notions used to state the properties of discovery\<close>

text \<open>The market that \<open>narkasa.load_markets\<close> registers for an entry of the listing:
  \<open>base/quote\<close> when both fields are non-empty strings, none when the entry is skipped.\<close>

definition listed_market :: "json \<Rightarrow> string option" where
  "listed_market entry =
     (case (py_get entry ''firstSymbol'' JNull, py_get entry ''secondSymbol'' JNull) of
        (Inr (JStr b), Inr (JStr q)) \<Rightarrow> if b \<noteq> [] \<and> q \<noteq> [] then Some (b @ ''/'' @ q) else None
      | _ \<Rightarrow> None)"

text \<open>The two dictionaries of a \<open>narkasa\<close> object agree: the market stored for a symbol
  maps back to that symbol, and every symbol stored for a market is a known symbol.\<close>

definition round_trip :: "narkasa \<Rightarrow> bool" where
  "round_trip self =
     ((\<forall>n m. map_of (symbols self) n = Some m \<longrightarrow> map_of (markets self) m = Some n)
      \<and> (\<forall>m n. map_of (markets self) m = Some n \<longrightarrow> map_of (symbols self) n \<noteq> None))"

text \<open>Two listings of \<open>narkasa\<close>: one that lists the market \<open>ETH/USDT\<close> twice, first under
  the symbol \<open>BTCUSDT\<close> of another market, and the listing whose markets are
  \<^verbatim>\<open>[{"firstSymbol":"BTC","secondSymbol":"USDT","symbol":"BTCUSDT"}]\<close>.\<close>

definition duplicate_listing :: "json" where
  "duplicate_listing =
     JObj [(''code'', JStr ''00000''),
           (''markets'', JArr [
              JObj [(''firstSymbol'', JStr ''BTC''), (''secondSymbol'', JStr ''USDT''), (''symbol'', JStr ''BTCUSDT'')],
              JObj [(''firstSymbol'', JStr ''ETH''), (''secondSymbol'', JStr ''USDT''), (''symbol'', JStr ''BTCUSDT'')],
              JObj [(''firstSymbol'', JStr ''ETH''), (''secondSymbol'', JStr ''USDT''), (''symbol'', JStr ''ETHUSDT'')]])]"

definition scenario_listing :: "json" where
  "scenario_listing =
     JObj [(''code'', JStr ''00000''),
           (''markets'', JArr [
              JObj [(''firstSymbol'', JStr ''BTC''), (''secondSymbol'', JStr ''USDT''), (''symbol'', JStr ''BTCUSDT'')]])]"

text \<open>A \<open>narkasa\<close> object with two discovered markets, a per-symbol answer of the exchange
  for \<open>BTCUSDT\<close>, and two remotes that answer the request for \<open>ETHUSDT\<close> with the HTTP
  status 500, respectively with the application-level error code \<open>10001\<close>. Then the same
  for \<open>toobit\<close>, whose error answer is the object
  \<^verbatim>\<open>{"code":-1121,"msg":"Invalid symbol."}\<close>.\<close>

definition two_markets :: "narkasa" where
  "two_markets = \<lparr>markets = [(''BTC/USDT'', JStr ''BTCUSDT''), (''ETH/USDT'', JStr ''ETHUSDT'')],
                   symbols = [(JStr ''BTCUSDT'', ''BTC/USDT''), (JStr ''ETHUSDT'', ''ETH/USDT'')]\<rparr>"

definition narkasa_btc_ticker :: "json" where
  "narkasa_btc_ticker =
     JObj [(''code'', JStr ''00000''),
           (''market'', JObj [(''symbol'', JStr ''BTCUSDT''), (''last'', JStr ''57000''),
                              (''volumeQty'', JStr ''11328''), (''volume'', JStr ''3456789'')])]"

definition remote_status_500 :: "remote" where
  "remote_status_500 =
     remote_of [(narkasa_ticker_url ''BTCUSDT'', Response 200 (Some narkasa_btc_ticker)),
                (narkasa_ticker_url ''ETHUSDT'', Response 500 None)]"

definition remote_error_code :: "remote" where
  "remote_error_code =
     remote_of [(narkasa_ticker_url ''BTCUSDT'', Response 200 (Some narkasa_btc_ticker)),
                (narkasa_ticker_url ''ETHUSDT'', Response 200 (Some error_code_listing))]"

definition toobit_two_markets :: "toobit" where
  "toobit_two_markets = \<lparr>t_markets = [(''BTC/USDT'', ''BTCUSDT''), (''ETH/USDT'', ''ETHUSDT'')]\<rparr>"

definition toobit_error_answer :: "json" where
  "toobit_error_answer = JObj [(''code'', JInt (- 1121)), (''msg'', JStr ''Invalid symbol.'')]"

definition toobit_remote_error_code :: "remote" where
  "toobit_remote_error_code =
     remote_of [(toobit_ticker_url ''BTCUSDT'', Response 200 (Some (JArr [toobit_scenario_ticker]))),
                (toobit_ticker_url ''ETHUSDT'', Response 200 (Some toobit_error_answer))]"

section \<open>Properties\<close>

subsection \<open>Evaluation of the built-in operations\<close>

lemmas float_defs = float_of_str_def is_digit_def strip_def py_isspace_def split_sign_def
  parse_number_def parse_exponent_def nat_of_digits_def float_of_real_def float_overflow_def

lemma float_of_str_4026: "float_of_str ''4026'' = Some (Finite 4026)"
  by (simp add: float_defs)

lemma float_of_str_4567: "float_of_str ''4567'' = Some (Finite 4567)"
  by (simp add: float_defs)

lemma replace_eth_btc: "replace ''_'' ''/'' ''eth_btc'' = ''eth/btc''"
  by code_simp

lemma set_update_subset: "set (AList.update k v al) \<subseteq> insert (k, v) (set al)"
  by (induction al) auto

lemma fetch_data_remote_of_200:
  "map_of answers url = Some (Response 200 (Some data)) \<Longrightarrow>
     fetch_data (remote_of answers) url = Inr data"
  by (simp add: fetch_data_def remote_of_def)

subsection \<open>The bulk adapter\<close>

lemma biconomy_normalize_loop_quote:
  assumes "biconomy_normalize_loop xs acc = Inr r"
    and "\<forall>kt \<in> set acc. quoteVolume (snd kt) = PyInt 0"
  shows "\<forall>kt \<in> set r. quoteVolume (snd kt) = PyInt 0"
  using assms
proof (induction xs arbitrary: acc)
  case Nil
  then show ?case by simp
next
  case (Cons x xs)
  from Cons.prems(1) obtain symbol l b where
    step: "biconomy_normalize_loop xs
             (AList.update symbol
                \<lparr>last_price = PyFloat l, baseVolume = PyFloat b, quoteVolume = PyInt 0\<rparr> acc) = Inr r"
    by (auto split: sum.splits)
  have "\<forall>kt \<in> set (AList.update symbol
                \<lparr>last_price = PyFloat l, baseVolume = PyFloat b, quoteVolume = PyInt 0\<rparr> acc).
          quoteVolume (snd kt) = PyInt 0"
    using Cons.prems(2) set_update_subset [of symbol _ acc] by fastforce
  with step show ?case by (rule Cons.IH)
qed

lemma biconomy_bulk_scenario:
  "biconomy_normalize_data bulk_scenario =
     Inr [(''eth/btc'',
           \<lparr>last_price = PyFloat (Finite 4026), baseVolume = PyFloat (Finite 4567),
              quoteVolume = PyInt 0\<rparr>)]"
  by (simp add: biconomy_normalize_data_def bulk_scenario_def biconomy_convert_symbol_to_ccxt_def
      get_float_def replace_eth_btc float_of_str_4026 float_of_str_4567)

text \<open>
  C10. Whatever payload \<open>biconomy.normalize_data\<close> accepts, every \<open>TickerInfo\<close> of the
  mapping it returns has the quote volume 0: the field is set to the constant \<open>0\<close> and never
  read from the exchange data.
\<close>

theorem biconomy_quote_volume_zero:
  "biconomy_normalize_data data = Inr r \<Longrightarrow> (symbol, t) \<in> set r \<Longrightarrow> quoteVolume t = PyInt 0"
proof -
  assume r: "biconomy_normalize_data data = Inr r" and mem: "(symbol, t) \<in> set r"
  from r obtain xs where "biconomy_normalize_loop xs [] = Inr r"
    by (auto simp: biconomy_normalize_data_def split: sum.splits)
  then have "\<forall>kt \<in> set r. quoteVolume (snd kt) = PyInt 0"
    by (rule biconomy_normalize_loop_quote) simp
  with mem show ?thesis by fastforce
qed

theorem biconomy_quote_volume_zero_witness:
  "biconomy_normalize_data bulk_scenario =
     Inr [(''eth/btc'',
           \<lparr>last_price = PyFloat (Finite 4026), baseVolume = PyFloat (Finite 4567),
              quoteVolume = PyInt 0\<rparr>)]
   \<and> quoteVolume \<lparr>last_price = PyFloat (Finite 4026), baseVolume = PyFloat (Finite 4567),
              quoteVolume = PyInt 0\<rparr> = PyInt 0"
  using biconomy_quote_volume_zero [OF biconomy_bulk_scenario, of "''eth/btc''"
      "\<lparr>last_price = PyFloat (Finite 4026), baseVolume = PyFloat (Finite 4567),
         quoteVolume = PyInt 0\<rparr>"]
    biconomy_bulk_scenario
  by simp

text \<open>
  C4. The bulk payload \<^verbatim>\<open>{"ticker":[{"symbol":"eth_btc","last":"4026","vol":"4567"}]}\<close>
  is normalized to a mapping with the single key \<open>eth/btc\<close>: the prices and volumes are the
  expected ones, but the symbol keeps its lower case, so the mapping has no entry for
  \<open>ETH/BTC\<close>.
\<close>

theorem biconomy_bulk_scenario_key:
  "biconomy_normalize_data bulk_scenario =
     Inr [(''eth/btc'',
           \<lparr>last_price = PyFloat (Finite 4026), baseVolume = PyFloat (Finite 4567),
              quoteVolume = PyInt 0\<rparr>)]
   \<and> map_of [(''eth/btc'',
           \<lparr>last_price = PyFloat (Finite 4026), baseVolume = PyFloat (Finite 4567),
              quoteVolume = PyInt 0\<rparr>)] ''ETH/BTC'' = None"
  using biconomy_bulk_scenario by simp

subsection \<open>Symbol conversion\<close>

text \<open>
  C3. The pattern conversions do not always produce the canonical form: \<open>biconomy\<close> only
  replaces \<open>_\<close> by \<open>/\<close> and leaves \<open>eth_btc\<close> in lower case, and \<open>toobit\<close> returns a symbol
  that does not end in \<open>USDT\<close> unchanged, without any separator.
\<close>

theorem convert_symbol_not_canonical:
  "biconomy_convert_symbol_to_ccxt (JStr ''eth_btc'') = Inr ''eth/btc''
   \<and> \<not> canonical_symbol ''eth/btc''
   \<and> toobit_convert_symbol_to_ccxt (JStr ''ETHBTC'') = Inr ''ETHBTC''
   \<and> \<not> canonical_symbol ''ETHBTC''"
  by (simp add: biconomy_convert_symbol_to_ccxt_def toobit_convert_symbol_to_ccxt_def
      replace_eth_btc canonical_symbol_def is_upper_alnum_def suffix_def)

subsection \<open>Market discovery\<close>

lemma narkasa_cleared:
  "(self :: narkasa)\<lparr>markets := [], symbols := []\<rparr> = narkasa_init"
  by (cases self) (simp add: narkasa_init_def)

text \<open>\<open>narkasa.load_markets\<close> starts from two empty dictionaries, whatever was stored.\<close>

lemma narkasa_load_markets_discards_old:
  "narkasa_load_markets net self = narkasa_load_markets net narkasa_init"
  by (simp add: narkasa_load_markets_def Let_def narkasa_cleared)

text \<open>So a second discovery against the same remote gives the registry of the first.\<close>

lemma narkasa_load_markets_idempotent:
  "narkasa_load_markets net (snd (narkasa_load_markets net self)) = narkasa_load_markets net self"
  using narkasa_load_markets_discards_old [of net "snd (narkasa_load_markets net self)"]
    narkasa_load_markets_discards_old [of net self]
  by simp

text \<open>\<open>narkasa.load_markets\<close> skips an entry whose base or quote is missing or empty.\<close>

lemma narkasa_load_loop_skips_incomplete:
  assumes "py_get entry ''firstSymbol'' JNull = Inr base"
    and "py_get entry ''secondSymbol'' JNull = Inr quote"
    and "\<not> (truthy base \<and> truthy quote)"
  shows "narkasa_load_loop (entry # rest) self = narkasa_load_loop rest self"
  using assms by (cases entry) auto

lemma error_code_listing_fetch:
  "fetch_data (remote_of [(narkasa_markets_url, Response 200 (Some error_code_listing))])
      narkasa_markets_url = Inr error_code_listing"
  by (simp add: fetch_data_remote_of_200)

text \<open>
  C2, as the claim states it, fails: when the listing carries the code \<open>10001\<close>,
  \<open>narkasa.load_markets\<close> raises nothing; it returns normally.
\<close>

theorem narkasa_load_markets_error_code_no_exception:
  "fst (narkasa_load_markets
          (remote_of [(narkasa_markets_url, Response 200 (Some error_code_listing))])
          old_registry) = None"
  by (simp add: narkasa_load_markets_def Let_def error_code_listing_fetch,
      simp add: error_code_listing_def code_ok_def)

text \<open>
  C2, amended. When the market listing is a JSON object whose \<open>code\<close> is not the success
  code \<open>00000\<close>, \<open>narkasa.load_markets\<close> returns without raising, and both dictionaries of
  the registry are empty afterwards (the previous contents are cleared, never partly
  rebuilt).
\<close>

theorem narkasa_load_markets_error_code:
  assumes "fetch_data net narkasa_markets_url = Inr data"
    and "py_get data ''code'' JNull = Inr code"
    and "code \<noteq> JStr code_ok"
  shows "narkasa_load_markets net self = (None, self\<lparr>markets := [], symbols := []\<rparr>)"
  using assms by (simp add: narkasa_load_markets_def Let_def)

theorem narkasa_load_markets_error_code_witness:
  "narkasa_load_markets
     (remote_of [(narkasa_markets_url, Response 200 (Some error_code_listing))]) old_registry
     = (None, \<lparr>markets = [], symbols = []\<rparr>)"
  using narkasa_load_markets_error_code [OF error_code_listing_fetch, of "JStr ''10001''" old_registry]
  by (simp add: error_code_listing_def code_ok_def old_registry_def)

text \<open>
  C5. \<open>toobit.load_markets\<close> does not clear \<open>self.markets\<close>: a market that only the old
  registry holds is still there after discovery, next to the newly listed one.
\<close>

theorem toobit_load_markets_keeps_old:
  "toobit_load_markets (remote_of [(toobit_info_url, Response 200 (Some toobit_listing))])
      \<lparr>t_markets = [(''OLD/USDT'', ''OLDUSDT'')]\<rparr>
     = (None, \<lparr>t_markets = [(''OLD/USDT'', ''OLDUSDT''), (''BTC/USDT'', ''BTCUSDT'')]\<rparr>)"
  by (simp add: toobit_load_markets_def fetch_data_remote_of_200 toobit_listing_def)

text \<open>
  C8. \<open>toobit.load_markets\<close> subscripts the entry (\<open>symbol["baseAsset"]\<close>): an entry without
  the field raises \<open>KeyError\<close>, and the complete entry after it is never registered.
\<close>

theorem toobit_load_markets_missing_field:
  "toobit_load_markets
     (remote_of [(toobit_info_url, Response 200 (Some toobit_incomplete_listing))]) toobit_init
     = (Some KeyError, toobit_init)"
  by (simp add: toobit_load_markets_def fetch_data_remote_of_200 toobit_incomplete_listing_def)

subsection \<open>Normalizing one ticker\<close>

lemma float_of_str_57000: "float_of_str ''57000'' = Some (Finite 57000)"
  by (simp add: float_defs)

lemma float_of_str_11328: "float_of_str ''11328'' = Some (Finite 11328)"
  by (simp add: float_defs)

lemma float_of_str_3456789: "float_of_str ''3456789'' = Some (Finite 3456789)"
  by (simp add: float_defs)

lemma replace_btcusdt: "replace ''USDT'' ''/USDT'' ''BTCUSDT'' = ''BTC/USDT''"
  by code_simp

lemma toobit_convert_btcusdt: "toobit_convert_symbol_to_ccxt (JStr ''BTCUSDT'') = Inr ''BTC/USDT''"
  by (simp add: toobit_convert_symbol_to_ccxt_def suffix_to_prefix replace_btcusdt)


lemma toobit_normalize_data_ok:
  assumes "py_getitem0 data = Inr x"
    and "py_get x ''s'' JNull = Inr native"
    and "toobit_convert_symbol_to_ccxt native = Inr symbol"
    and "get_float x ''c'' = Inr l" and "get_float x ''v'' = Inr b" and "get_float x ''qv'' = Inr q"
  shows "toobit_normalize_data data =
           Inr [(symbol, \<lparr>last_price = PyFloat l, baseVolume = PyFloat b, quoteVolume = PyFloat q\<rparr>)]"
  using assms by (simp add: toobit_normalize_data_def)


text \<open>
  C9, as the claim states it, fails: the payload \<^verbatim>\<open>[{"s":"BTCUSDT","c":null}]\<close> is a
  non-empty list whose first element has a string symbol, and \<open>float(None)\<close> raises.
\<close>

theorem toobit_normalize_data_null_price:
  "toobit_normalize_data toobit_null_price = Inl TypeError"
  by (simp add: toobit_normalize_data_def toobit_null_price_def toobit_convert_btcusdt get_float_def)

text \<open>
  C9, amended. \<open>toobit.normalize_data\<close> reads the first element of its payload unguarded:
  for a non-empty list whose first element is an object with a string symbol \<open>s\<close> and whose
  fields \<open>c\<close>, \<open>v\<close> and \<open>qv\<close> are each absent or convertible by \<open>float\<close>, it returns a
  mapping with exactly one entry, for the converted symbol; for the empty list the element
  access raises \<open>IndexError\<close>.
\<close>

theorem toobit_normalize_data_first_element:
  "(py_get x ''s'' JNull = Inr (JStr s) \<and> toobit_convert_symbol_to_ccxt (JStr s) = Inr symbol
      \<and> get_float x ''c'' = Inr l \<and> get_float x ''v'' = Inr b \<and> get_float x ''qv'' = Inr q
    \<longrightarrow> toobit_normalize_data (JArr (x # xs)) =
          Inr [(symbol, \<lparr>last_price = PyFloat l, baseVolume = PyFloat b, quoteVolume = PyFloat q\<rparr>)])
   \<and> toobit_normalize_data (JArr []) = Inl IndexError"
proof (intro conjI impI)
  assume h: "py_get x ''s'' JNull = Inr (JStr s) \<and> toobit_convert_symbol_to_ccxt (JStr s) = Inr symbol
      \<and> get_float x ''c'' = Inr l \<and> get_float x ''v'' = Inr b \<and> get_float x ''qv'' = Inr q"
  have "py_getitem0 (JArr (x # xs)) = Inr x" by simp
  with h show "toobit_normalize_data (JArr (x # xs)) =
          Inr [(symbol, \<lparr>last_price = PyFloat l, baseVolume = PyFloat b, quoteVolume = PyFloat q\<rparr>)]"
    by (intro toobit_normalize_data_ok) auto
next
  show "toobit_normalize_data (JArr []) = Inl IndexError"
    by (simp add: toobit_normalize_data_def)
qed

theorem toobit_normalize_data_first_element_witness:
  "toobit_normalize_data (JArr [toobit_scenario_ticker]) =
     Inr [(''BTC/USDT'', \<lparr>last_price = PyFloat (Finite 57000), baseVolume = PyFloat (Finite 11328),
                           quoteVolume = PyFloat (Finite 3456789)\<rparr>)]
   \<and> toobit_normalize_data (JArr []) = Inl IndexError"
  using toobit_normalize_data_first_element [of toobit_scenario_ticker "''BTCUSDT''" "''BTC/USDT''"
      "Finite 57000" "Finite 11328" "Finite 3456789" "[]"]
  by (simp add: toobit_scenario_ticker_def toobit_convert_btcusdt get_float_def
      float_of_str_57000 float_of_str_11328 float_of_str_3456789)




subsection \<open>Round trip through the registry of \<open>narkasa\<close>\<close>

lemma narkasa_load_loop_step:
  assumes "narkasa_load_loop (x # rest) s = (None, s')"
  shows "(listed_market x = None \<and> narkasa_load_loop rest s = (None, s'))
       \<or> (\<exists>market name. listed_market x = Some market \<and> hashable name
             \<and> narkasa_load_loop rest
                  (s\<lparr>markets := AList.update market name (markets s),
                     symbols := AList.update name market (symbols s)\<rparr>) = (None, s'))"
proof (cases x)
  case (JObj kvs)
  define name where "name = (case map_of kvs ''symbol'' of Some v \<Rightarrow> v | None \<Rightarrow> JNull)"
  show ?thesis
  proof (cases "listed_market x")
    case None
    with assms JObj show ?thesis
      by (auto simp: listed_market_def split: json.splits if_splits option.splits)
  next
    case (Some market)
    with assms JObj have "hashable name
        \<and> narkasa_load_loop rest
             (s\<lparr>markets := AList.update market name (markets s),
                symbols := AList.update name market (symbols s)\<rparr>) = (None, s')"
      by (auto simp: listed_market_def Let_def name_def split: json.splits if_splits option.splits)
    with Some show ?thesis by blast
  qed
qed (use assms in simp_all)

lemma round_trip_register:
  assumes "round_trip s" and "map_of (markets s) market = None"
  shows "round_trip (s\<lparr>markets := AList.update market name (markets s),
                       symbols := AList.update name market (symbols s)\<rparr>)"
  using assms by (auto simp: round_trip_def update_conv')

lemma narkasa_load_loop_round_trip:
  assumes "narkasa_load_loop xs s = (None, s')"
    and "distinct (List.map_filter listed_market xs)"
    and "set (List.map_filter listed_market xs) \<inter> fst ` set (markets s) = {}"
    and "round_trip s"
  shows "round_trip s'"
  using assms
proof (induction xs arbitrary: s)
  case Nil
  then show ?case by simp
next
  case (Cons x xs)
  from narkasa_load_loop_step [OF Cons.prems(1)] show ?case
  proof (elim disjE conjE exE)
    assume "listed_market x = None" and "narkasa_load_loop xs s = (None, s')"
    with Cons.prems show ?thesis
      by (intro Cons.IH [of s]) simp_all
  next
    fix market name
    assume m: "listed_market x = Some market"
      and l: "narkasa_load_loop xs
                (s\<lparr>markets := AList.update market name (markets s),
                   symbols := AList.update name market (symbols s)\<rparr>) = (None, s')"
    from m Cons.prems(2) have d: "distinct (List.map_filter listed_market xs)"
      and fresh: "market \<notin> set (List.map_filter listed_market xs)"
      by simp_all
    from m Cons.prems(3) have new: "market \<notin> fst ` set (markets s)"
      and disj: "set (List.map_filter listed_market xs) \<inter> fst ` set (markets s) = {}"
      by auto
    from new have "map_of (markets s) market = None"
      by (simp add: map_of_eq_None_iff)
    with Cons.prems(4) have rt: "round_trip (s\<lparr>markets := AList.update market name (markets s),
                   symbols := AList.update name market (symbols s)\<rparr>)"
      by (rule round_trip_register)
    from fresh disj have "set (List.map_filter listed_market xs)
        \<inter> fst ` set (markets (s\<lparr>markets := AList.update market name (markets s),
                   symbols := AList.update name market (symbols s)\<rparr>)) = {}"
      by (auto simp: dom_update)
    with l d rt show ?thesis by (intro Cons.IH) 
  qed
qed

text \<open>
  C6, amended. After a discovery of \<open>narkasa\<close> that returned normally from a listing in
  which no two registered entries name the same market, every string \<open>n\<close> present in the
  registry (a value of \<open>markets\<close> or a key of \<open>symbols\<close>) converts to a market whose native
  identifier in \<open>markets\<close> is \<open>n\<close> again.
\<close>

theorem narkasa_round_trip:
  assumes "fetch_data net narkasa_markets_url = Inr data"
    and "py_get data ''markets'' (JArr []) = Inr listing"
    and "py_iter listing = Inr entries"
    and "distinct (List.map_filter listed_market entries)"
    and "narkasa_load_markets net self = (None, self')"
    and "JStr n \<in> ran (map_of (markets self')) \<or> JStr n \<in> dom (map_of (symbols self'))"
  shows "\<exists>market. narkasa_convert_symbol_to_ccxt self' (JStr n) = Inr market
           \<and> map_of (markets self') market = Some (JStr n)"
proof -
  have init: "round_trip narkasa_init"
    by (simp add: round_trip_def narkasa_init_def)
  from assms(1,2) obtain code where code: "py_get data ''code'' JNull = Inr code"
    by (cases data) simp_all
  have "round_trip self'"
  proof (cases "code = JStr code_ok")
    case True
    with assms(1,2,3,5) code have loop: "narkasa_load_loop entries narkasa_init = (None, self')"
      by (simp add: narkasa_load_markets_def Let_def narkasa_cleared)
    show ?thesis
      by (rule narkasa_load_loop_round_trip [OF loop assms(4) _ init]) (simp add: narkasa_init_def)
  next
    case False
    with assms(1,5) code have "self' = narkasa_init"
      by (simp add: narkasa_load_markets_def Let_def narkasa_cleared)
    with init show ?thesis by simp
  qed
  moreover from this assms(6) have "map_of (symbols self') (JStr n) \<noteq> None"
    by (auto simp: round_trip_def ran_def)
  ultimately show ?thesis
    by (auto simp: round_trip_def narkasa_convert_symbol_to_ccxt_def)
qed

lemma scenario_listing_fetch:
  "fetch_data (remote_of [(narkasa_markets_url, Response 200 (Some scenario_listing))])
      narkasa_markets_url = Inr scenario_listing"
  by (simp add: fetch_data_remote_of_200)

lemma scenario_listing_load:
  "narkasa_load_markets (remote_of [(narkasa_markets_url, Response 200 (Some scenario_listing))])
      narkasa_init
   = (None, \<lparr>markets = [(''BTC/USDT'', JStr ''BTCUSDT'')],
              symbols = [(JStr ''BTCUSDT'', ''BTC/USDT'')]\<rparr>)"
  by (simp add: narkasa_load_markets_def Let_def scenario_listing_fetch narkasa_init_def)
     (simp add: scenario_listing_def code_ok_def Let_def)

theorem narkasa_round_trip_witness:
  "narkasa_load_markets (remote_of [(narkasa_markets_url, Response 200 (Some scenario_listing))])
      narkasa_init
   = (None, \<lparr>markets = [(''BTC/USDT'', JStr ''BTCUSDT'')],
              symbols = [(JStr ''BTCUSDT'', ''BTC/USDT'')]\<rparr>)
   \<and> (\<exists>market.
         narkasa_convert_symbol_to_ccxt
           \<lparr>markets = [(''BTC/USDT'', JStr ''BTCUSDT'')],
              symbols = [(JStr ''BTCUSDT'', ''BTC/USDT'')]\<rparr> (JStr ''BTCUSDT'') = Inr market
         \<and> map_of [(''BTC/USDT'', JStr ''BTCUSDT'')] market = Some (JStr ''BTCUSDT''))"
  using narkasa_round_trip [OF scenario_listing_fetch _ _ _ scenario_listing_load,
      of "JArr [JObj [(''firstSymbol'', JStr ''BTC''), (''secondSymbol'', JStr ''USDT''),
                      (''symbol'', JStr ''BTCUSDT'')]]"
         "[JObj [(''firstSymbol'', JStr ''BTC''), (''secondSymbol'', JStr ''USDT''),
                      (''symbol'', JStr ''BTCUSDT'')]]" "''BTCUSDT''"]
    scenario_listing_load
  by (simp add: scenario_listing_def listed_market_def)

lemma duplicate_listing_fetch:
  "fetch_data (remote_of [(narkasa_markets_url, Response 200 (Some duplicate_listing))])
      narkasa_markets_url = Inr duplicate_listing"
  by (simp add: fetch_data_remote_of_200)

lemma duplicate_listing_load:
  "narkasa_load_markets (remote_of [(narkasa_markets_url, Response 200 (Some duplicate_listing))])
      narkasa_init
   = (None, \<lparr>markets = [(''BTC/USDT'', JStr ''BTCUSDT''), (''ETH/USDT'', JStr ''ETHUSDT'')],
              symbols = [(JStr ''BTCUSDT'', ''ETH/USDT''), (JStr ''ETHUSDT'', ''ETH/USDT'')]\<rparr>)"
  by (simp add: narkasa_load_markets_def Let_def duplicate_listing_fetch narkasa_init_def)
     (simp add: duplicate_listing_def code_ok_def Let_def)

text \<open>
  C6, as the claim states it, fails: after the discovery of a listing that names the market
  \<open>ETH/USDT\<close> twice, \<open>BTCUSDT\<close> is a native identifier of the registry (the value stored for
  \<open>BTC/USDT\<close>); it converts to \<open>ETH/USDT\<close>, whose native identifier is \<open>ETHUSDT\<close>.
\<close>

theorem narkasa_round_trip_fails:
  "narkasa_load_markets (remote_of [(narkasa_markets_url, Response 200 (Some duplicate_listing))])
      narkasa_init
   = (None, \<lparr>markets = [(''BTC/USDT'', JStr ''BTCUSDT''), (''ETH/USDT'', JStr ''ETHUSDT'')],
              symbols = [(JStr ''BTCUSDT'', ''ETH/USDT''), (JStr ''ETHUSDT'', ''ETH/USDT'')]\<rparr>)
   \<and> narkasa_convert_symbol_to_ccxt
        \<lparr>markets = [(''BTC/USDT'', JStr ''BTCUSDT''), (''ETH/USDT'', JStr ''ETHUSDT'')],
           symbols = [(JStr ''BTCUSDT'', ''ETH/USDT''), (JStr ''ETHUSDT'', ''ETH/USDT'')]\<rparr>
        (JStr ''BTCUSDT'') = Inr ''ETH/USDT''
   \<and> map_of [(''BTC/USDT'', JStr ''BTCUSDT''), (''ETH/USDT'', JStr ''ETHUSDT'')] ''ETH/USDT''
       = Some (JStr ''ETHUSDT'')"
  using duplicate_listing_load by (simp add: narkasa_convert_symbol_to_ccxt_def)

subsection \<open>Fetching the tickers one symbol at a time\<close>

lemma dict_update_single: "dict_update acc [(k, v)] = AList.update k v acc"
  by (simp add: dict_update_def)

lemma length_filter_neq:
  "distinct xs \<Longrightarrow> x \<in> set xs \<Longrightarrow> length (filter (\<lambda>y. y \<noteq> x) xs) = length xs - 1"
proof (induction xs)
  case Nil
  then show ?case by simp
next
  case (Cons a xs)
  show ?case
  proof (cases "a = x")
    case True
    with Cons.prems have "filter (\<lambda>y. y \<noteq> x) xs = xs"
      by (auto simp: filter_id_conv)
    with True show ?thesis by simp
  next
    case False
    with Cons have "length (filter (\<lambda>y. y \<noteq> x) xs) = length xs - 1" and "xs \<noteq> []"
      by auto
    with False show ?thesis by (cases xs) simp_all
  qed
qed

lemma narkasa_fetch_loop_skips:
  assumes "distinct (map fst ms)"
    and "set (map fst ms) \<inter> set (map fst acc) = {}"
    and "\<forall>(m, n) \<in> set ms.
           if m = mj
           then (\<exists>s d c. n = JStr s \<and> fetch_data net (narkasa_ticker_url s) = Inr d
                   \<and> py_getitem d ''code'' = Inr c \<and> c \<noteq> JStr code_ok)
           else (\<exists>s d t. n = JStr s \<and> fetch_data net (narkasa_ticker_url s) = Inr d
                   \<and> py_getitem d ''code'' = Inr (JStr code_ok)
                   \<and> narkasa_normalize_data self d = Inr [(m, t)])"
  shows "\<exists>r. narkasa_fetch_loop net self (map snd ms) acc = Inr r
           \<and> map fst r = map fst acc @ filter (\<lambda>m. m \<noteq> mj) (map fst ms)"
  using assms
proof (induction ms arbitrary: acc)
  case Nil
  then show ?case by simp
next
  case (Cons p ms)
  obtain m n where p: "p = (m, n)" by (cases p)
  from Cons.prems(1) p have d: "distinct (map fst ms)" and mnew: "m \<notin> set (map fst ms)"
    by simp_all
  from Cons.prems(3) have rest: "\<forall>(m, n) \<in> set ms.
           if m = mj
           then (\<exists>s d c. n = JStr s \<and> fetch_data net (narkasa_ticker_url s) = Inr d
                   \<and> py_getitem d ''code'' = Inr c \<and> c \<noteq> JStr code_ok)
           else (\<exists>s d t. n = JStr s \<and> fetch_data net (narkasa_ticker_url s) = Inr d
                   \<and> py_getitem d ''code'' = Inr (JStr code_ok)
                   \<and> narkasa_normalize_data self d = Inr [(m, t)])"
    by simp
  show ?case
  proof (cases "m = mj")
    case True
    with Cons.prems(3) p obtain s d c where
      "n = JStr s" "fetch_data net (narkasa_ticker_url s) = Inr d"
      "py_getitem d ''code'' = Inr c" "c \<noteq> JStr code_ok"
      by auto
    then have step: "narkasa_fetch_loop net self (map snd (p # ms)) acc
        = narkasa_fetch_loop net self (map snd ms) acc"
      using p by simp
    from Cons.prems(2) have "set (map fst ms) \<inter> set (map fst acc) = {}" by auto
    from Cons.IH [OF d this rest] obtain r where
      "narkasa_fetch_loop net self (map snd ms) acc = Inr r"
      "map fst r = map fst acc @ filter (\<lambda>m. m \<noteq> mj) (map fst ms)"
      by blast
    with step True p show ?thesis by simp
  next
    case False
    with Cons.prems(3) p obtain s d t where
      "n = JStr s" "fetch_data net (narkasa_ticker_url s) = Inr d"
      "py_getitem d ''code'' = Inr (JStr code_ok)"
      "narkasa_normalize_data self d = Inr [(m, t)]"
      by auto
    then have step: "narkasa_fetch_loop net self (map snd (p # ms)) acc
        = narkasa_fetch_loop net self (map snd ms) (AList.update m t acc)"
      using p by (simp add: dict_update_single)
    from Cons.prems(2) p have macc: "m \<notin> set (map fst acc)" by auto
    then have keys: "map fst (AList.update m t acc) = map fst acc @ [m]"
      by (simp add: update_keys)
    with Cons.prems(2) mnew have "set (map fst ms) \<inter> set (map fst (AList.update m t acc)) = {}"
      by auto
    from Cons.IH [OF d this rest] obtain r where
      "narkasa_fetch_loop net self (map snd ms) (AList.update m t acc) = Inr r"
      "map fst r = map fst (AList.update m t acc) @ filter (\<lambda>m. m \<noteq> mj) (map fst ms)"
      by blast
    with step keys False p show ?thesis by simp
  qed
qed

text \<open>
  C1, amended. In \<open>narkasa.fetch_tickers\<close> an application-level error code is not fatal
  to the batch: when the registry holds \<open>N\<close> markets, the answer for the native identifier
  of one market \<open>mj\<close> carries a code other than \<open>00000\<close>, and every other request is
  answered with the success code and a ticker that normalizes to an entry of its market,
  \<open>fetch_tickers\<close> does not raise and returns a mapping of size \<open>N - 1\<close> whose keys are the
  markets of the registry without \<open>mj\<close>, in the order of the registry.
\<close>

theorem narkasa_fetch_tickers_skips_error_code:
  assumes "markets self \<noteq> []"
    and "distinct (map fst (markets self))"
    and "(mj, JStr nj) \<in> set (markets self)"
    and "fetch_data net (narkasa_ticker_url nj) = Inr dj"
    and "py_getitem dj ''code'' = Inr cj"
    and "cj \<noteq> JStr code_ok"
    and "\<forall>(m, n) \<in> set (markets self). m \<noteq> mj \<longrightarrow>
           (\<exists>s d t. n = JStr s \<and> fetch_data net (narkasa_ticker_url s) = Inr d
              \<and> py_getitem d ''code'' = Inr (JStr code_ok)
              \<and> narkasa_normalize_data self d = Inr [(m, t)])"
  shows "\<exists>r. narkasa_fetch_tickers net self = (Inr r, self)
           \<and> map fst r = filter (\<lambda>m. m \<noteq> mj) (map fst (markets self))
           \<and> length r = length (markets self) - 1"
proof -
  have one: "n = JStr nj" if "(mj, n) \<in> set (markets self)" for n
    using that assms(2,3) by (meson eq_key_imp_eq_value)
  have all: "\<forall>(m, n) \<in> set (markets self).
           if m = mj
           then (\<exists>s d c. n = JStr s \<and> fetch_data net (narkasa_ticker_url s) = Inr d
                   \<and> py_getitem d ''code'' = Inr c \<and> c \<noteq> JStr code_ok)
           else (\<exists>s d t. n = JStr s \<and> fetch_data net (narkasa_ticker_url s) = Inr d
                   \<and> py_getitem d ''code'' = Inr (JStr code_ok)
                   \<and> narkasa_normalize_data self d = Inr [(m, t)])"
    using assms(4-7) one by auto
  from narkasa_fetch_loop_skips [OF assms(2) _ all, of "[]"] obtain r where
    r: "narkasa_fetch_loop net self (map snd (markets self)) [] = Inr r"
       "map fst r = filter (\<lambda>m. m \<noteq> mj) (map fst (markets self))"
    by auto
  from assms(3) have "mj \<in> set (map fst (markets self))" by force
  with assms(2) have "length (filter (\<lambda>m. m \<noteq> mj) (map fst (markets self)))
      = length (map fst (markets self)) - 1"
    by (rule length_filter_neq)
  with r(2) have "length r = length (markets self) - 1"
    by (metis length_map)
  with r assms(1) show ?thesis
    by (simp add: narkasa_fetch_tickers_def)
qed


lemma narkasa_urls_differ: "narkasa_ticker_url ''ETHUSDT'' \<noteq> narkasa_ticker_url ''BTCUSDT''"
  by (simp add: narkasa_ticker_url_def)

lemma toobit_urls_differ: "toobit_ticker_url ''ETHUSDT'' \<noteq> toobit_ticker_url ''BTCUSDT''"
  by (simp add: toobit_ticker_url_def)

lemma narkasa_btc_ticker_normalized:
  "narkasa_normalize_data two_markets narkasa_btc_ticker =
     Inr [(''BTC/USDT'', \<lparr>last_price = PyFloat (Finite 57000), baseVolume = PyFloat (Finite 11328),
                           quoteVolume = PyFloat (Finite 3456789)\<rparr>)]"
  by (simp add: narkasa_normalize_data_def narkasa_btc_ticker_def two_markets_def
      narkasa_convert_symbol_to_ccxt_def get_float_def
      float_of_str_57000 float_of_str_11328 float_of_str_3456789)

lemma narkasa_btc_ticker_code: "py_getitem narkasa_btc_ticker ''code'' = Inr (JStr code_ok)"
  by (simp add: narkasa_btc_ticker_def code_ok_def)

lemma error_code_listing_code: "py_getitem error_code_listing ''code'' = Inr (JStr ''10001'')"
  by (simp add: error_code_listing_def)

lemma remote_error_code_btc:
  "fetch_data remote_error_code (narkasa_ticker_url ''BTCUSDT'') = Inr narkasa_btc_ticker"
  by (simp add: remote_error_code_def fetch_data_remote_of_200)

lemma remote_error_code_eth:
  "fetch_data remote_error_code (narkasa_ticker_url ''ETHUSDT'') = Inr error_code_listing"
  by (simp add: remote_error_code_def fetch_data_remote_of_200 narkasa_urls_differ)

lemma remote_status_500_btc:
  "fetch_data remote_status_500 (narkasa_ticker_url ''BTCUSDT'') = Inr narkasa_btc_ticker"
  by (simp add: remote_status_500_def fetch_data_remote_of_200)

lemma remote_status_500_eth:
  "fetch_data remote_status_500 (narkasa_ticker_url ''ETHUSDT'') = Inl (Exception_resp 500)"
  by (simp add: remote_status_500_def fetch_data_def remote_of_def narkasa_urls_differ)

lemma toobit_remote_btc:
  "fetch_data toobit_remote_error_code (toobit_ticker_url ''BTCUSDT'') = Inr (JArr [toobit_scenario_ticker])"
  by (simp add: toobit_remote_error_code_def fetch_data_remote_of_200)

lemma toobit_remote_eth:
  "fetch_data toobit_remote_error_code (toobit_ticker_url ''ETHUSDT'') = Inr toobit_error_answer"
  by (simp add: toobit_remote_error_code_def fetch_data_remote_of_200 toobit_urls_differ)

lemma toobit_scenario_normalized:
  "toobit_normalize_data (JArr [toobit_scenario_ticker]) =
     Inr [(''BTC/USDT'', \<lparr>last_price = PyFloat (Finite 57000), baseVolume = PyFloat (Finite 11328),
                           quoteVolume = PyFloat (Finite 3456789)\<rparr>)]"
  by (simp add: toobit_normalize_data_def toobit_scenario_ticker_def toobit_convert_btcusdt
      get_float_def float_of_str_57000 float_of_str_11328 float_of_str_3456789)

lemma toobit_error_answer_normalized: "toobit_normalize_data toobit_error_answer = Inl KeyError"
  by (simp add: toobit_normalize_data_def toobit_error_answer_def)

text \<open>
  C1, as the claim states it, fails. With two registered markets and the HTTP status 500
  for the second request, \<open>narkasa.fetch_tickers\<close> raises the exception of \<open>fetch_data\<close>;
  and \<open>toobit.fetch_tickers\<close> raises \<open>KeyError\<close> when the exchange answers the second
  request with an error object. Neither returns the mapping of size one.
\<close>

theorem fetch_tickers_failure_is_fatal:
  "fst (narkasa_fetch_tickers remote_status_500 two_markets) = Inl (Exception_resp 500)
   \<and> fst (toobit_fetch_tickers toobit_remote_error_code toobit_two_markets) = Inl KeyError"
proof
  have "narkasa_fetch_loop remote_status_500 two_markets [JStr ''BTCUSDT'', JStr ''ETHUSDT''] []
      = Inl (Exception_resp 500)"
    by (simp add: remote_status_500_btc remote_status_500_eth narkasa_btc_ticker_code
        narkasa_btc_ticker_normalized)
  then show "fst (narkasa_fetch_tickers remote_status_500 two_markets) = Inl (Exception_resp 500)"
    by (simp add: narkasa_fetch_tickers_def two_markets_def)
next
  have "toobit_fetch_loop toobit_remote_error_code [''BTCUSDT'', ''ETHUSDT''] [] = Inl KeyError"
    by (simp add: toobit_remote_btc toobit_remote_eth toobit_scenario_normalized
        toobit_error_answer_normalized)
  then show "fst (toobit_fetch_tickers toobit_remote_error_code toobit_two_markets) = Inl KeyError"
    by (simp add: toobit_fetch_tickers_def toobit_two_markets_def)
qed

theorem narkasa_fetch_tickers_skips_error_code_witness:
  "\<exists>r. narkasa_fetch_tickers remote_error_code two_markets = (Inr r, two_markets)
      \<and> map fst r = [''BTC/USDT''] \<and> length r = 1"
proof -
  have h1: "markets two_markets \<noteq> []"
    and h2: "distinct (map fst (markets two_markets))"
    and h3: "(''ETH/USDT'', JStr ''ETHUSDT'') \<in> set (markets two_markets)"
    by (simp_all add: two_markets_def)
  have h6: "JStr ''10001'' \<noteq> JStr code_ok"
    by (simp add: code_ok_def)
  have "\<exists>s d t. JStr ''BTCUSDT'' = JStr s
          \<and> fetch_data remote_error_code (narkasa_ticker_url s) = Inr d
          \<and> py_getitem d ''code'' = Inr (JStr code_ok)
          \<and> narkasa_normalize_data two_markets d = Inr [(''BTC/USDT'', t)]"
    using remote_error_code_btc narkasa_btc_ticker_code narkasa_btc_ticker_normalized by blast
  then have h7: "\<forall>(m, n) \<in> set (markets two_markets). m \<noteq> ''ETH/USDT'' \<longrightarrow>
           (\<exists>s d t. n = JStr s \<and> fetch_data remote_error_code (narkasa_ticker_url s) = Inr d
              \<and> py_getitem d ''code'' = Inr (JStr code_ok)
              \<and> narkasa_normalize_data two_markets d = Inr [(m, t)])"
    by (simp add: two_markets_def)
  from narkasa_fetch_tickers_skips_error_code
         [OF h1 h2 h3 remote_error_code_eth error_code_listing_code h6 h7]
  show ?thesis by (simp add: two_markets_def)
qed

text \<open>The mapping that the run of the witness returns.\<close>

lemma narkasa_fetch_tickers_error_code_result:
  "narkasa_fetch_tickers remote_error_code two_markets =
     (Inr [(''BTC/USDT'', \<lparr>last_price = PyFloat (Finite 57000), baseVolume = PyFloat (Finite 11328),
                            quoteVolume = PyFloat (Finite 3456789)\<rparr>)], two_markets)"
proof -
  have "narkasa_fetch_loop remote_error_code two_markets [JStr ''BTCUSDT'', JStr ''ETHUSDT''] []
      = Inr [(''BTC/USDT'', \<lparr>last_price = PyFloat (Finite 57000), baseVolume = PyFloat (Finite 11328),
                            quoteVolume = PyFloat (Finite 3456789)\<rparr>)]"
    by (simp add: remote_error_code_btc remote_error_code_eth narkasa_btc_ticker_code
        narkasa_btc_ticker_normalized error_code_listing_code code_ok_def dict_update_single)
  then show ?thesis
    by (simp add: narkasa_fetch_tickers_def two_markets_def)
qed

end
